theory Spec2Isabelle
  imports Main "HOL-Library.Sublist"
begin

section \<open>Constants and data model of main.go\<close>

text \<open>
  The recursive follow-up analysis engine of \<^verbatim>\<open>main.go\<close>. Go strings are byte
  sequences, so they are \<^typ>\<open>string\<close> (lists of 8-bit characters) and \<^verbatim>\<open>len\<close> is
  \<^const>\<open>length\<close>. The Go type \<^verbatim>\<open>int\<close> is modelled by \<^typ>\<open>int\<close>: the only
  arithmetic on it is \<^verbatim>\<open>currentDepth++\<close> under the guard
  \<^verbatim>\<open>currentDepth < maxFollowups\<close>, which cannot overflow; \<open>maxInt\<close> is the
  largest value of the 64-bit type, where a library function checks a length against it.
\<close>

definition maxFollowups :: int where
  "maxFollowups = 5"

definition maxOutputCharacters :: int where
  "maxOutputCharacters = 3000"

definition maxInt :: int where
  "maxInt = 2 ^ 63 - 1"

text \<open>
  A Go \<^verbatim>\<open>error\<close> value is represented by its message (what \<^verbatim>\<open>%v\<close> and
  \<^verbatim>\<open>%w\<close> print); \<^verbatim>\<open>nil\<close> is \<^const>\<open>None\<close>. A function of Go type
  \<^verbatim>\<open>(T, error)\<close> returns a pair, as in the source.
\<close>

type_synonym go_error = string

text \<open>A run-time panic (index or slice out of range, negative repeat count) unwinds
  every caller: no function of the program recovers.\<close>

datatype 'a outcome = Panics | Returns 'a

record Check =
  Command_chk :: string
  Prompt_chk :: string

record GPTResponse =
  Flagged_resp :: bool
  Description :: string
  FollowUpPrompt :: string
  FollowUpCommand :: string
  Alert_resp :: string

datatype AnalysisItem =
  AnalysisItem (Prompt: string) (Command: string) (Flagged: bool)
    (AnalysisDescription: string) (Alert: string) (RawOutput: string)
    (FollowUps: "AnalysisItem list")

record Report =
  Items :: "AnalysisItem list"

text \<open>Field assignments \<^verbatim>\<open>item.F = v\<close> on the local \<^verbatim>\<open>item\<close>.\<close>

fun set_Flagged :: "bool \<Rightarrow> AnalysisItem \<Rightarrow> AnalysisItem" where
  "set_Flagged v (AnalysisItem p c f d a r fs) = AnalysisItem p c v d a r fs"

fun set_AnalysisDescription :: "string \<Rightarrow> AnalysisItem \<Rightarrow> AnalysisItem" where
  "set_AnalysisDescription v (AnalysisItem p c f d a r fs) = AnalysisItem p c f v a r fs"

fun set_Alert :: "string \<Rightarrow> AnalysisItem \<Rightarrow> AnalysisItem" where
  "set_Alert v (AnalysisItem p c f d a r fs) = AnalysisItem p c f d v r fs"

fun set_RawOutput :: "string \<Rightarrow> AnalysisItem \<Rightarrow> AnalysisItem" where
  "set_RawOutput v (AnalysisItem p c f d a r fs) = AnalysisItem p c f d a v fs"

fun set_FollowUps :: "AnalysisItem list \<Rightarrow> AnalysisItem \<Rightarrow> AnalysisItem" where
  "set_FollowUps v (AnalysisItem p c f d a r fs) = AnalysisItem p c f d a r v"

section \<open>The outside world\<close>

text \<open>
  The request built by \<^verbatim>\<open>callOpenAI\<close> (the fields it sets).
\<close>

record ChatCompletionMessage =
  Role :: string
  Content :: string

record ChatCompletionRequest =
  MaxTokens :: int
  Model :: string
  Messages :: "ChatCompletionMessage list"

text \<open>
  What \<^verbatim>\<open>cmd.CombinedOutput()\<close> and \<^verbatim>\<open>ctx.Err()\<close> report after the shell has
  run under the 10 second deadline \<^verbatim>\<open>commandTimeout\<close>: the bytes captured, the error
  of the run, and whether the context's deadline was exceeded.
\<close>

record proc_result =
  combined_output :: string
  run_err :: "go_error option"
  deadline_exceeded :: bool

text \<open>
  The shell, the chat-completion service and the standard library's JSON decoder are not
  code of the program. They are parameters: \<open>'w\<close> is the state of the world (file
  system, processes, the remote service), which a shell command or a request may change
  and on which their answers may depend. \<open>CreateChatCompletion\<close> answers with the
  \<^verbatim>\<open>Message.Content\<close> of every element of \<^verbatim>\<open>resp.Choices\<close> and the error;
  \<open>json_Unmarshal\<close> decodes a text into a \<open>GPTResponse\<close> or fails.
\<close>

record 'w env =
  GOOS :: string
  sh :: "string \<Rightarrow> 'w \<Rightarrow> proc_result \<times> 'w"
  CreateChatCompletion :: "ChatCompletionRequest \<Rightarrow> 'w \<Rightarrow> (string list \<times> go_error option) \<times> 'w"
  json_Unmarshal :: "string \<Rightarrow> go_error + GPTResponse"

text \<open>The observable effects of a run, in the order they happen: a line written to
  standard output, a shell command started, a request sent to the oracle.\<close>

datatype event =
  Printed string
| Executed string
| Requested ChatCompletionRequest

section \<open>The functions of main.go\<close>

fun detectOS :: "string \<Rightarrow> string" where
  "detectOS os =
     (if os = ''darwin'' then ''macOS''
      else if os = ''linux'' then ''Linux''
      else if os = ''windows'' then ''Windows''
      else ''Unsupported OS'')"

definition systemMessage :: "string \<Rightarrow> string" where
  \<open>systemMessage os =
     ''You are a careful and accurate system analyst. Our operating system is '' @ os @
     ''.\<newline>Your task is to evaluate the provided command output in the context of the given prompt and determine if there is any truly suspicious activity. If you identify any issues, set flagged to true, provide a description of the problem and a follow up GPT prompt terminal command to analyse it in a more detailed way.\<newline>Return data as JSON:\<newline>{\<newline>  "flagged": boolean,\<newline>  "description": string,\<newline>  "follow_up_prompt": string,\<newline>  "follow_up_command": string,\<newline>  "alert": string\<newline>}\<newline>Do not include any extra text outside of the JSON object.''\<close>

definition GPTResponse_zero :: GPTResponse where
  "GPTResponse_zero =
     \<lparr>Flagged_resp = False, Description = [], FollowUpPrompt = [], FollowUpCommand = [],
      Alert_resp = []\<rparr>"

definition chatRequest :: "string \<Rightarrow> string \<Rightarrow> ChatCompletionRequest" where
  "chatRequest os prompt =
     \<lparr>MaxTokens = 8100, Model = ''gpt-4o-mini-2024-07-18'',
      Messages = [\<lparr>Role = ''system'', Content = systemMessage os\<rparr>,
                  \<lparr>Role = ''user'', Content = prompt\<rparr>]\<rparr>"

text \<open>
  \<^verbatim>\<open>callOpenAI\<close>: a transport error is returned as it is; otherwise the content of
  \<^verbatim>\<open>resp.Choices[0]\<close> is decoded, and indexing an empty \<^verbatim>\<open>Choices\<close> panics.
\<close>

definition callOpenAI ::
  "'w env \<Rightarrow> string \<Rightarrow> 'w \<Rightarrow> (GPTResponse \<times> go_error option) outcome \<times> 'w \<times> event list" where
  "callOpenAI env prompt w =
     (let os = detectOS (GOOS env);
          req = chatRequest os prompt
      in case CreateChatCompletion env req w of
           ((choices, err), w') \<Rightarrow>
             (case err of
                Some e \<Rightarrow> Returns (GPTResponse_zero, Some e)
              | None \<Rightarrow>
                  (case choices of
                     [] \<Rightarrow> Panics
                   | content # _ \<Rightarrow>
                       (case json_Unmarshal env content of
                          Inl e \<Rightarrow>
                            Returns (GPTResponse_zero,
                                     Some (''failed to parse GPT response: '' @ e))
                        | Inr gptResp \<Rightarrow> Returns (gptResp, None))),
              w', [Requested req]))"

text \<open>\<^verbatim>\<open>executeCommand\<close>: the deadline is checked first, then the error of the run;
  in both cases the captured output is dropped.\<close>

definition executeCommand ::
  "'w env \<Rightarrow> string \<Rightarrow> 'w \<Rightarrow> (string \<times> go_error option) \<times> 'w \<times> event list" where
  "executeCommand env command w =
     (case sh env command w of
        (res, w') \<Rightarrow>
          (if deadline_exceeded res then ([], Some ''command execution timed out'')
           else case run_err res of
                  Some e \<Rightarrow>
                    ([], Some (''failed to execute command: '' @ command @ '', error: '' @ e))
                | None \<Rightarrow> (combined_output res, None),
           w', [Executed command]))"

text \<open>\<^verbatim>\<open>truncateOutput\<close>: the slice \<^verbatim>\<open>output[:maxLen]\<close> panics when
  \<^verbatim>\<open>maxLen\<close> is negative.\<close>

definition truncateOutput :: "string \<Rightarrow> int \<Rightarrow> string outcome" where
  "truncateOutput out maxLen =
     (if int (length out) > maxLen then
        (if maxLen < 0 then Panics else Returns (take (nat maxLen) out))
      else Returns out)"

text \<open>\<^verbatim>\<open>indent\<close>: \<^verbatim>\<open>strings.Repeat("  ", depth)\<close> panics on a negative count,
  and when the length of the result, \<open>2 * depth\<close>, exceeds \<open>maxInt\<close>.\<close>

definition indent :: "int \<Rightarrow> string outcome" where
  "indent depth =
     (if depth < 0 then Panics
      else if 2 * depth > maxInt then Panics
      else Returns (concat (replicate (nat depth) ''  '')))"

text \<open>
  \<^verbatim>\<open>analyze\<close>. The local \<^verbatim>\<open>item\<close> starts with the two fields given and zero
  values elsewhere. The arguments of \<^verbatim>\<open>fmt.Printf\<close> are evaluated before the line is
  written, so a panic of \<^verbatim>\<open>indent\<close> leaves no line. Every path through the body of the
  \<^verbatim>\<open>for\<close> statement ends in \<^verbatim>\<open>break\<close> (lines 299, 308 and 317), so the body runs
  at most once: the statement is the conditional below, with the three exits kept apart.
\<close>

function analyze ::
  "'w env \<Rightarrow> string \<Rightarrow> string \<Rightarrow> int \<Rightarrow> 'w
     \<Rightarrow> (AnalysisItem \<times> go_error option) outcome \<times> 'w \<times> event list" where
  "analyze env prompt command depth w =
     (let item = AnalysisItem prompt command False [] [] [] [] in
      if command = [] then
        (Returns (set_AnalysisDescription ''No command provided'' (set_Flagged False item),
                  None), w, [])
      else
        case indent depth of
          Panics \<Rightarrow> (Panics, w, [])
        | Returns ind \<Rightarrow>
            let ev1 = [Printed (ind @ ''Executing command: '' @ command @ ''\<newline>'')] in
            case executeCommand env command w of
              ((commandOutput, err), w1, ev2) \<Rightarrow>
                (case err of
                   Some e \<Rightarrow>
                     (Returns (set_RawOutput commandOutput
                                (set_AnalysisDescription (''Command execution error: '' @ e)
                                  (set_Flagged False item)), None),
                      w1, ev1 @ ev2)
                 | None \<Rightarrow>
                     (case truncateOutput commandOutput maxOutputCharacters of
                        Panics \<Rightarrow> (Panics, w1, ev1 @ ev2)
                      | Returns truncatedOutput \<Rightarrow>
                         (let fullPrompt =
                                command @ ''\<newline>\<newline>Command output (truncated):\<newline>'' @
                                truncatedOutput
                          in
                          case callOpenAI env fullPrompt w1 of
                            (Panics, w2, ev3) \<Rightarrow> (Panics, w2, ev1 @ ev2 @ ev3)
                          | (Returns (response, err), w2, ev3) \<Rightarrow>
                              (case err of
                                 Some e \<Rightarrow>
                                   (Returns (set_RawOutput truncatedOutput
                                              (set_AnalysisDescription (''OpenAI API error: '' @ e)
                                                (set_Flagged False item)), None),
                                    w2, ev1 @ ev2 @ ev3)
                               | None \<Rightarrow>
                                   let item1 =
                                         set_RawOutput truncatedOutput
                                           (set_Alert (Alert_resp response)
                                             (set_AnalysisDescription (Description response)
                                               (set_Flagged (Flagged_resp response) item)));
                                       currentResponse = response;
                                       currentDepth = depth
                                   in
                                   if Flagged item1 \<and> FollowUpCommand currentResponse \<noteq> [] \<and>
                                      FollowUpPrompt currentResponse \<noteq> [] \<and>
                                      currentDepth < maxFollowups
                                   then
                                     let currentDepth = currentDepth + 1 in
                                     case indent currentDepth of
                                       Panics \<Rightarrow> (Panics, w2, ev1 @ ev2 @ ev3)
                                     | Returns ind2 \<Rightarrow>
                                        (let ev4 = [Printed (ind2 @ ''Executing follow-up command: '' @
                                                      FollowUpCommand currentResponse @ ''\<newline>'')]
                                         in
                                         case analyze env (FollowUpPrompt currentResponse)
                                                (FollowUpCommand currentResponse) currentDepth w2 of
                                           (Panics, w3, ev5) \<Rightarrow>
                                             (Panics, w3, ev1 @ ev2 @ ev3 @ ev4 @ ev5)
                                         | (Returns (followupItem, err), w3, ev5) \<Rightarrow>
                                             (case err of
                                                Some e \<Rightarrow>
                                                  (Returns (item1, None), w3,
                                                   ev1 @ ev2 @ ev3 @ ev4 @ ev5)
                                              | None \<Rightarrow>
                                                  let item2 = set_FollowUps
                                                        (FollowUps item1 @ [followupItem]) item1
                                                  in
                                                  if length (FollowUps followupItem) > 0 then
                                                    (Returns (item2, None), w3,
                                                     ev1 @ ev2 @ ev3 @ ev4 @ ev5)
                                                  else
                                                    (Returns (item2, None), w3,
                                                     ev1 @ ev2 @ ev3 @ ev4 @ ev5)))
                                   else (Returns (item1, None), w2, ev1 @ ev2 @ ev3))))))"
  by pat_completeness auto
termination
  by (relation "measure (\<lambda>(env, prompt, command, depth, w). nat (maxFollowups - depth))") auto

declare analyze.simps [simp del]

text \<open>The catalog \<^verbatim>\<open>checks.MacOS\<close> (24 entries; the other two lists are empty).\<close>

definition checks_MacOS :: "Check list" where
  \<open>checks_MacOS =
     [
      \<lparr>Command_chk = (''system_profiler SPUSBDataType -json | jq \'.SPUSBDataType[] | select(."_name" | test("keyboard|mouse|storage|hub"; "i"))'' @ [CHR 0x27]),
       Prompt_chk = ''Look for any suspicious USB devices, filtering for specific device types.''\<rparr>,
      \<lparr>Command_chk = ''ps -Ao user,pid,%cpu,%mem,comm --sort=-%cpu | head -n 20'',
       Prompt_chk = ''Analyze top processes for unusual CPU or memory usage.''\<rparr>,
      \<lparr>Command_chk = ''netstat -an | grep -E \'ESTABLISHED|LISTEN\' | awk \'{print $4,$5,$6}\' | uniq -c | sort -nr | head -n 20'',
       Prompt_chk = ''Identify top suspicious or unusual network connections.''\<rparr>,
      \<lparr>Command_chk = ''last | head -n 20'',
       Prompt_chk = ''Review the most recent login history for any unusual user activity.''\<rparr>,
      \<lparr>Command_chk = (''dscl . list /Users | grep -vE \'^_.*|daemon|nobody|root'' @ [CHR 0x27]),
       Prompt_chk = ''Check for unexpected or unauthorized user accounts, excluding system defaults.''\<rparr>,
      \<lparr>Command_chk = ''pmset -g log | grep -i failure | tail -n 10'',
       Prompt_chk = ''Check the last 10 power management failures or unexpected events.''\<rparr>,
      \<lparr>Command_chk = ''dmesg | tail -n 20'',
       Prompt_chk = ''Analyze the last 20 kernel messages for potential issues.''\<rparr>,
      \<lparr>Command_chk = ''ls -lh /Users/Shared | grep -v \'^d\' | sort -k5,5nr | head -n 10'',
       Prompt_chk = ''Check the largest or most recently modified suspicious files in the shared user directory.''\<rparr>,
      \<lparr>Command_chk = ''launchctl list | grep -vE \'com.apple|system\' | head -n 20'',
       Prompt_chk = ''Check non-system running services/daemons for suspicious entries.''\<rparr>,
      \<lparr>Command_chk = ''crontab -l | grep -E \'wget|curl|bash|sh\' | tail -n 10'',
       Prompt_chk = ''Check for potentially suspicious cron jobs.''\<rparr>,
      \<lparr>Command_chk = ''fdesetup status'',
       Prompt_chk = ''Check if FileVault disk encryption is enabled or disabled.''\<rparr>,
      \<lparr>Command_chk = ''kextstat | grep -v com.apple'',
       Prompt_chk = ''Examine loaded kernel extensions for anything unusual, excluding Apple-signed extensions.''\<rparr>,
      \<lparr>Command_chk = (''launchctl list | grep -vE \'com.apple|system'' @ [CHR 0x27]),
       Prompt_chk = ''Check for non-Apple launch services that might be malicious.''\<rparr>,
      \<lparr>Command_chk = (''defaults read /Library/Preferences/com.apple.loginwindow | grep -vE \'default values|empty'' @ [CHR 0x27]),
       Prompt_chk = ''Inspect login window preferences for suspicious settings, filtering irrelevant defaults.''\<rparr>,
      \<lparr>Command_chk = (''mdutil -s / | grep -iE \'enabled|disabled'' @ [CHR 0x27]),
       Prompt_chk = ''Check Spotlight indexing status; unexpected changes could indicate tampering.''\<rparr>,
      \<lparr>Command_chk = (''lsof -i | grep -E \'LISTEN|ESTABLISHED'' @ [CHR 0x27]),
       Prompt_chk = ''Review open files and network connections for suspicious activity, focusing on active connections.''\<rparr>,
      \<lparr>Command_chk = (''ls -la /etc/sudoers.d | grep -v \'^total'' @ [CHR 0x27]),
       Prompt_chk = ''Check for unauthorized sudoers modifications, ignoring summary lines.''\<rparr>,
      \<lparr>Command_chk = ''fdesetup status'',
       Prompt_chk = ''Check if FileVault disk encryption is enabled or disabled.''\<rparr>,
      \<lparr>Command_chk = ''kextstat | grep -v com.apple'',
       Prompt_chk = ''Examine loaded kernel extensions for anything unusual, excluding Apple-signed extensions.''\<rparr>,
      \<lparr>Command_chk = (''launchctl list | grep -vE \'com.apple|system'' @ [CHR 0x27]),
       Prompt_chk = ''Check for non-Apple launch services that might be malicious.''\<rparr>,
      \<lparr>Command_chk = (''defaults read /Library/Preferences/com.apple.loginwindow | grep -vE \'default values|empty'' @ [CHR 0x27]),
       Prompt_chk = ''Inspect login window preferences for suspicious settings, filtering irrelevant defaults.''\<rparr>,
      \<lparr>Command_chk = (''mdutil -s / | grep -iE \'enabled|disabled'' @ [CHR 0x27]),
       Prompt_chk = ''Check Spotlight indexing status; unexpected changes could indicate tampering.''\<rparr>,
      \<lparr>Command_chk = (''lsof -i | grep -E \'LISTEN|ESTABLISHED'' @ [CHR 0x27]),
       Prompt_chk = ''Review open files and network connections for suspicious activity, focusing on active connections.''\<rparr>,
      \<lparr>Command_chk = (''ls -la /etc/sudoers.d | grep -v \'^total'' @ [CHR 0x27]),
       Prompt_chk = ''Check for unauthorized sudoers modifications, ignoring summary lines.''\<rparr>
     ]\<close>

text \<open>
  The run driver inside \<^verbatim>\<open>main\<close> (lines 343 to 354, after the client has been
  created): the loop over the catalog with the accumulator \<^verbatim>\<open>results\<close>, where a
  non-nil error skips the entry after printing a line, and the report built from it.
\<close>

fun main_loop ::
  "'w env \<Rightarrow> Check list \<Rightarrow> AnalysisItem list \<Rightarrow> 'w
     \<Rightarrow> AnalysisItem list outcome \<times> 'w \<times> event list" where
  "main_loop env [] results w = (Returns results, w, [])"
| "main_loop env (chk # rest) results w =
     (case analyze env (Prompt_chk chk) (Command_chk chk) 0 w of
        (Panics, w1, ev1) \<Rightarrow> (Panics, w1, ev1)
      | (Returns (item, err), w1, ev1) \<Rightarrow>
          (case err of
             Some e \<Rightarrow>
               (case main_loop env rest results w1 of
                  (r, w2, ev2) \<Rightarrow>
                    (r, w2,
                     ev1 @ [Printed (''Error analyzing command '' @ Command_chk chk @ '': '' @
                                     e @ ''\<newline>'')] @ ev2))
           | None \<Rightarrow>
               (case main_loop env rest (results @ [item]) w1 of
                  (r, w2, ev2) \<Rightarrow> (r, w2, ev1 @ ev2))))"

definition main_report :: "'w env \<Rightarrow> 'w \<Rightarrow> Report outcome \<times> 'w \<times> event list" where
  "main_report env w =
     (case main_loop env checks_MacOS [] w of
        (Panics, w1, evs) \<Rightarrow> (Panics, w1, evs)
      | (Returns results, w1, evs) \<Rightarrow> (Returns \<lparr>Items = results\<rparr>, w1, evs))"

section \<open>Measures on the result tree\<close>

text \<open>All nodes of the tree of an item, the item first.\<close>

fun nodes :: "AnalysisItem \<Rightarrow> AnalysisItem list" where
  "nodes (AnalysisItem p c f d a r fs) =
     AnalysisItem p c f d a r fs # concat (map nodes fs)"

text \<open>The depth of the tree of an item: the number of follow-up levels below it.\<close>

fun tree_depth :: "AnalysisItem \<Rightarrow> nat" where
  "tree_depth (AnalysisItem p c f d a r fs) =
     foldr (\<lambda>child m. max (Suc (tree_depth child)) m) fs 0"

section \<open>Stub collaborators\<close>

text \<open>
  Test doubles for the shell and the oracle. The world is the number of requests the
  oracle has answered so far.
\<close>

definition flagged_resp :: GPTResponse where
  "flagged_resp =
     \<lparr>Flagged_resp = True, Description = ''susp'', FollowUpPrompt = ''deeper'',
      FollowUpCommand = ''echo f'', Alert_resp = ''alert''\<rparr>"

definition clear_resp :: GPTResponse where
  "clear_resp =
     \<lparr>Flagged_resp = False, Description = ''clear'', FollowUpPrompt = [],
      FollowUpCommand = [], Alert_resp = []\<rparr>"

definition sh_ok :: "string \<Rightarrow> string \<Rightarrow> nat \<Rightarrow> proc_result \<times> nat" where
  "sh_ok out command w =
     (\<lparr>combined_output = out, run_err = None, deadline_exceeded = False\<rparr>, w)"

text \<open>The oracle judges everything clear.\<close>

definition env_clear :: "nat env" where
  "env_clear =
     \<lparr>GOOS = ''darwin'', sh = sh_ok ''ok'',
      CreateChatCompletion = (\<lambda>req w. (([''c''], None), Suc w)),
      json_Unmarshal = (\<lambda>content. Inr clear_resp)\<rparr>"

text \<open>The oracle flags everything and always proposes a follow-up.\<close>

definition env_flag :: "nat env" where
  "env_flag =
     \<lparr>GOOS = ''darwin'', sh = sh_ok ''out'',
      CreateChatCompletion = (\<lambda>req w. (([''f''], None), Suc w)),
      json_Unmarshal = (\<lambda>content. Inr flagged_resp)\<rparr>"

text \<open>The shell runs into the deadline after some output; the oracle would flag.\<close>

definition env_timeout :: "nat env" where
  "env_timeout =
     \<lparr>GOOS = ''darwin'',
      sh = (\<lambda>command w.
              (\<lparr>combined_output = ''partial'', run_err = Some ''signal: killed'',
                deadline_exceeded = True\<rparr>, w)),
      CreateChatCompletion = (\<lambda>req w. (([''f''], None), Suc w)),
      json_Unmarshal = (\<lambda>content. Inr flagged_resp)\<rparr>"

text \<open>The service answers without error and with an empty list of choices.\<close>

definition env_no_choices :: "nat env" where
  "env_no_choices =
     \<lparr>GOOS = ''darwin'', sh = sh_ok ''ok'',
      CreateChatCompletion = (\<lambda>req w. (([], None), Suc w)),
      json_Unmarshal = (\<lambda>content. Inr clear_resp)\<rparr>"

text \<open>The command prints 3001 bytes.\<close>

definition env_long :: "nat env" where
  "env_long =
     \<lparr>GOOS = ''darwin'', sh = sh_ok (replicate 3001 (CHR ''a'')),
      CreateChatCompletion = (\<lambda>req w. (([''c''], None), Suc w)),
      json_Unmarshal = (\<lambda>content. Inr clear_resp)\<rparr>"

text \<open>The tree an oracle that always flags produces: a chain of follow-ups.\<close>

fun chain :: "nat \<Rightarrow> AnalysisItem" where
  "chain 0 = AnalysisItem ''deeper'' ''echo f'' True ''susp'' ''alert'' ''out'' []"
| "chain (Suc n) = AnalysisItem ''deeper'' ''echo f'' True ''susp'' ''alert'' ''out'' [chain n]"

section \<open>Properties\<close>

subsection \<open>One step of the engine\<close>

lemma truncateOutput_budget:
  "truncateOutput out maxOutputCharacters = Returns (take 3000 out)"
  by (simp add: truncateOutput_def maxOutputCharacters_def)

lemma executeCommand_error_no_output:
  "executeCommand env command w = ((out, Some e), w', evs) \<Longrightarrow> out = []"
  by (auto simp: executeCommand_def split: prod.splits if_splits option.splits)

text \<open>What one call that returns an item guarantees, with the recursive call it made,
  if any, named: every induction below rests on this.\<close>

lemma analyze_step:
  assumes "analyze env prompt command depth w = (Returns (item, err), w', evs)"
  shows "err = None \<and> Prompt item = prompt \<and> Command item = command \<and>
         int (length (RawOutput item)) \<le> maxOutputCharacters \<and>
         (FollowUps item = [] \<or>
          (\<exists>child fp fc w2 evs2. depth < maxFollowups \<and> FollowUps item = [child] \<and>
             analyze env fp fc (depth + 1) w2 = (Returns (child, None), w', evs2)))"
  using assms
  apply (subst (asm) analyze.simps)
  apply (auto simp: Let_def executeCommand_def truncateOutput_def maxOutputCharacters_def
      split: if_splits outcome.splits prod.splits option.splits)
  done

lemma fst_analyzeD:
  "fst (analyze env prompt command depth w) = Returns (item, err)
   \<Longrightarrow> \<exists>w' evs. analyze env prompt command depth w = (Returns (item, err), w', evs)"
  by (cases "analyze env prompt command depth w") simp

text \<open>A property that every returned item has holds at every node of a returned tree.\<close>

lemma analyze_nodes_invariant:
  assumes step: "\<And>p c d w item err w' evs.
             analyze env p c d w = (Returns (item, err), w', evs) \<Longrightarrow> Q item"
    and run: "analyze env prompt command depth w = (Returns (item, err), w', evs)"
  shows "\<forall>n \<in> set (nodes item). Q n"
  using run
proof (induction "nat (maxFollowups - depth)" arbitrary: prompt command depth w item err w' evs)
  case 0
  from analyze_step [OF "0.prems"] "0.hyps" have fs: "FollowUps item = []" by auto
  have "Q item" using step "0.prems" by blast
  with fs show ?case by (cases item) simp
next
  case (Suc k)
  have here: "Q item" using step Suc.prems by blast
  from analyze_step [OF Suc.prems]
  consider "FollowUps item = []"
    | child fp fc w2 evs2 where "depth < maxFollowups" "FollowUps item = [child]"
        "analyze env fp fc (depth + 1) w2 = (Returns (child, None), w', evs2)"
    by blast
  then show ?case
  proof cases
    case 1
    with here show ?thesis by (cases item) simp
  next
    case 2
    from Suc.hyps(2) 2(1) have "k = nat (maxFollowups - (depth + 1))" by simp
    from Suc.hyps(1) [OF this 2(3)] have "\<forall>n \<in> set (nodes child). Q n" .
    with here 2(2) show ?thesis by (cases item) simp
  qed
qed

lemma tree_depth_bound:
  "analyze env prompt command depth w = (Returns (item, err), w', evs)
   \<Longrightarrow> int (tree_depth item) \<le> max 0 (maxFollowups - depth)"
proof (induction "nat (maxFollowups - depth)" arbitrary: prompt command depth w item err w' evs)
  case 0
  from analyze_step [OF "0.prems"] "0.hyps" have "FollowUps item = []" by auto
  then show ?case by (cases item) simp
next
  case (Suc k)
  from analyze_step [OF Suc.prems]
  consider "FollowUps item = []"
    | child fp fc w2 evs2 where "depth < maxFollowups" "FollowUps item = [child]"
        "analyze env fp fc (depth + 1) w2 = (Returns (child, None), w', evs2)"
    by blast
  then show ?case
  proof cases
    case 1
    then show ?thesis by (cases item) simp
  next
    case 2
    from Suc.hyps(2) 2(1) have "k = nat (maxFollowups - (depth + 1))" by simp
    from Suc.hyps(1) [OF this 2(3)]
    have "int (tree_depth child) \<le> max 0 (maxFollowups - (depth + 1))" .
    with 2(1,2) show ?thesis by (cases item) auto
  qed
qed


subsection \<open>The output truncator\<close>

text \<open>
  Claim C8. For every \<open>maxChars \<ge> 0\<close> and every string \<open>s\<close>,
  \<^verbatim>\<open>truncateOutput(s, maxChars)\<close> returns a string of length \<open>min (len s) maxChars\<close>
  that is a prefix of \<open>s\<close>, and it returns \<open>s\<close> unchanged when \<open>len s \<le> maxChars\<close>.
  Lengths are counted in bytes, as \<^verbatim>\<open>len\<close> and the slice expression do.
\<close>

theorem truncateOutput_prefix_min:
  assumes "0 \<le> maxChars"
  shows "\<exists>t. truncateOutput s maxChars = Returns t \<and>
             length t = min (length s) (nat maxChars) \<and> prefix t s \<and>
             (int (length s) \<le> maxChars \<longrightarrow> t = s)"
  using assms by (auto simp: truncateOutput_def take_is_prefix min_def)

theorem truncateOutput_prefix_min_witness:
  "(0::int) \<le> 3 \<and> truncateOutput ''hello'' 3 = Returns ''hel'' \<and>
   length ''hel'' = min (length ''hello'') (nat 3) \<and> prefix ''hel'' ''hello'' \<and>
   int (length ''hi'') \<le> 3 \<and> truncateOutput ''hi'' 3 = Returns ''hi''"
  using truncateOutput_prefix_min [of 3 "''hello''"] truncateOutput_prefix_min [of 3 "''hi''"]
  by (simp add: truncateOutput_def)

subsection \<open>Runs of the stub collaborators\<close>

lemma callOpenAI_env_flag:
  "callOpenAI env_flag p w =
     (Returns (flagged_resp, None), Suc w, [Requested (chatRequest ''macOS'' p)])"
  by (simp add: callOpenAI_def env_flag_def)

lemma executeCommand_env_flag:
  "executeCommand env_flag c w = ((''out'', None), w, [Executed c])"
  by (simp add: executeCommand_def env_flag_def sh_ok_def)

lemma analyze_env_flag_chain:
  "0 \<le> d \<Longrightarrow> d \<le> 5 \<Longrightarrow> k = nat (5 - d) \<Longrightarrow>
   \<exists>evs. analyze env_flag ''deeper'' ''echo f'' d w = (Returns (chain k, None), w + k + 1, evs)"
proof (induction k arbitrary: d w)
  case 0
  then have d: "d = 5" by simp
  show ?case unfolding d
    by (subst analyze.simps)
      (simp add: indent_def maxInt_def executeCommand_env_flag truncateOutput_budget callOpenAI_env_flag
        flagged_resp_def maxFollowups_def)
next
  case (Suc k)
  then have d: "0 \<le> d + 1" "d + 1 \<le> 5" "k = nat (5 - (d + 1))" "d < 5" by simp_all
  from Suc.IH [OF d(1,2,3)] obtain evs where
    rec: "analyze env_flag ''deeper'' ''echo f'' (d + 1) (Suc w) =
            (Returns (chain k, None), Suc w + k + 1, evs)" by blast
  show ?case
    using Suc.prems(1) d(4)
    by (subst analyze.simps)
      (simp add: indent_def maxInt_def executeCommand_env_flag truncateOutput_budget callOpenAI_env_flag
        flagged_resp_def maxFollowups_def rec)
qed

lemma fst_analyze_env_flag:
  "0 \<le> d \<Longrightarrow> d \<le> 5 \<Longrightarrow>
   fst (analyze env_flag ''deeper'' ''echo f'' d w) = Returns (chain (nat (5 - d)), None)"
  using analyze_env_flag_chain [of d "nat (5 - d)" w] by auto

lemma analyze_env_clear:
  "analyze env_clear ''check'' ''echo ok'' 0 0 =
     (Returns (AnalysisItem ''check'' ''echo ok'' False ''clear'' [] ''ok'' [], None), 1,
      [Printed ''Executing command: echo ok\<newline>'', Executed ''echo ok'',
       Requested (chatRequest ''macOS''
                   ''echo ok\<newline>\<newline>Command output (truncated):\<newline>ok'')])"
  by (subst analyze.simps)
    (simp add: indent_def maxInt_def executeCommand_def truncateOutput_budget
      callOpenAI_def env_clear_def sh_ok_def clear_resp_def)

lemma analyze_env_long:
  "fst (analyze env_long ''p'' ''ls'' 0 0) =
     Returns (AnalysisItem ''p'' ''ls'' False ''clear'' [] (replicate 3000 (CHR ''a'')) [], None)"
  by (subst analyze.simps)
    (simp add: indent_def maxInt_def executeCommand_def truncateOutput_budget
      callOpenAI_def env_long_def sh_ok_def clear_resp_def)

subsection \<open>Termination and depth\<close>

text \<open>
  Claim C2. For every prompt, command and starting depth \<open>d\<close> with
  \<open>0 \<le> d \<le> maxFollowups\<close>, \<^verbatim>\<open>analyze(prompt, command, d)\<close> terminates, and the
  tree of items it returns has depth at most \<open>maxFollowups\<close> measured from the depth of
  the root call: \<open>d\<close> plus the number of follow-up levels is at most 5. Termination is
  the totality of \<^const>\<open>analyze\<close>, established by its termination proof on the
  measure \<open>maxFollowups - depth\<close>, for a shell and an oracle that answer every call
  (the shell runs under its deadline); a run ends by returning an item or by a panic. In
  the witness the oracle always flags, and the tree from depth 0 has exactly 5 levels.
\<close>

theorem analyze_terminates_depth_bounded:
  assumes "0 \<le> d" and "d \<le> maxFollowups"
  shows "\<exists>out w' evs. analyze env prompt command d w = (out, w', evs) \<and>
           (\<forall>item err. out = Returns (item, err) \<longrightarrow>
              int (tree_depth item) + d \<le> maxFollowups)"
proof -
  obtain out w' evs where run: "analyze env prompt command d w = (out, w', evs)"
    by (cases "analyze env prompt command d w") auto
  have "int (tree_depth item) + d \<le> maxFollowups" if "out = Returns (item, err)" for item err
    using tree_depth_bound [of env prompt command d w item err w' evs] run that assms by simp
  with run show ?thesis by blast
qed

theorem analyze_terminates_depth_bounded_witness:
  "(0::int) \<le> 0 \<and> 0 \<le> maxFollowups \<and>
   fst (analyze env_flag ''deeper'' ''echo f'' 0 0) = Returns (chain 5, None) \<and>
   tree_depth (chain 5) = 5 \<and> int (tree_depth (chain 5)) + 0 \<le> maxFollowups"
proof -
  have run: "fst (analyze env_flag ''deeper'' ''echo f'' 0 0) = Returns (chain 5, None)"
    using fst_analyze_env_flag [of 0 0] by simp
  have "int (tree_depth (chain 5)) + 0 \<le> maxFollowups"
    using analyze_terminates_depth_bounded [of 0 env_flag "''deeper''" "''echo f''" 0] run
    by (auto simp: maxFollowups_def)
  moreover have "tree_depth (chain 5) = 5" by (simp add: numeral_eq_Suc)
  ultimately show ?thesis using run by (simp add: maxFollowups_def)
qed

subsection \<open>Shape of the result tree\<close>

text \<open>
  Claim C4. Every item returned by \<^verbatim>\<open>analyze\<close>, at every level of the tree, has at
  most one element in \<^verbatim>\<open>follow_ups\<close>: one follow-up is chased per level and no
  sibling is explored.
\<close>

theorem analyze_follow_ups_at_most_one:
  assumes "fst (analyze env prompt command depth w) = Returns (item, err)"
  shows "\<forall>n \<in> set (nodes item). length (FollowUps n) \<le> 1"
proof -
  from fst_analyzeD [OF assms] obtain w' evs
    where run: "analyze env prompt command depth w = (Returns (item, err), w', evs)" by blast
  have "length (FollowUps i) \<le> 1"
    if "analyze env p c d v = (Returns (i, e), v', es)" for p c d v i e v' es
    using analyze_step [OF that] by auto
  from analyze_nodes_invariant [where Q = "\<lambda>n. length (FollowUps n) \<le> 1", OF this run]
  show ?thesis .
qed

theorem analyze_follow_ups_at_most_one_witness:
  "fst (analyze env_flag ''deeper'' ''echo f'' 3 0) = Returns (chain 2, None) \<and>
   nodes (chain 2) = [chain 2, chain 1, chain 0] \<and>
   length (FollowUps (chain 2)) \<le> 1 \<and> length (FollowUps (chain 1)) \<le> 1 \<and>
   length (FollowUps (chain 0)) \<le> 1"
proof -
  have run: "fst (analyze env_flag ''deeper'' ''echo f'' 3 0) = Returns (chain 2, None)"
    using fst_analyze_env_flag [of 3 0] by (simp add: numeral_eq_Suc)
  have n: "nodes (chain 2) = [chain 2, chain 1, chain 0]" by (simp add: numeral_eq_Suc)
  from analyze_follow_ups_at_most_one [OF run] n run show ?thesis by simp
qed

text \<open>
  Claim C9. Every node of the tree returned by \<^verbatim>\<open>analyze\<close> has a
  \<^verbatim>\<open>raw_output\<close> of at most \<open>maxOutputCharacters\<close> (3000) bytes; and whenever
  \<^verbatim>\<open>executeCommand\<close> returns an error, the output it returns with it is empty, which
  is what the execution-error path attaches.
\<close>

theorem analyze_raw_output_bounded:
  assumes "fst (analyze env prompt command depth w) = Returns (item, err)"
  shows "(\<forall>n \<in> set (nodes item). int (length (RawOutput n)) \<le> maxOutputCharacters) \<and>
         (\<forall>c v. snd (fst (executeCommand env c v)) \<noteq> None \<longrightarrow>
                fst (fst (executeCommand env c v)) = [])"
proof -
  from fst_analyzeD [OF assms] obtain w' evs
    where run: "analyze env prompt command depth w = (Returns (item, err), w', evs)" by blast
  have "int (length (RawOutput i)) \<le> maxOutputCharacters"
    if "analyze env p c d v = (Returns (i, e), v', es)" for p c d v i e v' es
    using analyze_step [OF that] by auto
  from analyze_nodes_invariant
    [where Q = "\<lambda>n. int (length (RawOutput n)) \<le> maxOutputCharacters", OF this run]
  have "\<forall>n \<in> set (nodes item). int (length (RawOutput n)) \<le> maxOutputCharacters" .
  moreover have "fst (fst (executeCommand env c v)) = []"
    if "snd (fst (executeCommand env c v)) \<noteq> None" for c v
    using that executeCommand_error_no_output [of env c v]
    by (cases "executeCommand env c v") auto
  ultimately show ?thesis by blast
qed

theorem analyze_raw_output_bounded_witness:
  "fst (analyze env_long ''p'' ''ls'' 0 0) =
     Returns (AnalysisItem ''p'' ''ls'' False ''clear'' [] (replicate 3000 (CHR ''a'')) [], None) \<and>
   length (combined_output (fst (sh env_long ''ls'' 0))) = 3001 \<and>
   int (length (replicate 3000 (CHR ''a''))) \<le> maxOutputCharacters \<and>
   executeCommand env_timeout ''ls'' 0 =
     (([], Some ''command execution timed out''), 0, [Executed ''ls''])"
proof -
  from analyze_raw_output_bounded [OF analyze_env_long]
  have b: "int (length (replicate 3000 (CHR ''a''))) \<le> maxOutputCharacters" by simp
  have s: "length (combined_output (fst (sh env_long ''ls'' 0))) = 3001"
    by (simp add: env_long_def sh_ok_def)
  have t: "executeCommand env_timeout ''ls'' 0 =
     (([], Some ''command execution timed out''), 0, [Executed ''ls''])"
    by (simp add: executeCommand_def env_timeout_def)
  show ?thesis by (intro conjI analyze_env_long s b t)
qed

text \<open>
  Claim C10. On every path, the item returned by
  \<^verbatim>\<open>analyze(prompt, command, depth)\<close> has its \<^verbatim>\<open>Prompt\<close> field equal to the
  prompt argument and its \<^verbatim>\<open>Command\<close> field equal to the command argument.
\<close>

theorem analyze_prompt_command_fields:
  assumes "fst (analyze env prompt command depth w) = Returns (item, err)"
  shows "Prompt item = prompt \<and> Command item = command"
proof -
  from fst_analyzeD [OF assms] obtain w' evs
    where "analyze env prompt command depth w = (Returns (item, err), w', evs)" by blast
  from analyze_step [OF this] show ?thesis by simp
qed

theorem analyze_prompt_command_fields_witness:
  "fst (analyze env_clear ''check'' ''echo ok'' 0 0) =
     Returns (AnalysisItem ''check'' ''echo ok'' False ''clear'' [] ''ok'' [], None) \<and>
   Prompt (AnalysisItem ''check'' ''echo ok'' False ''clear'' [] ''ok'' []) = ''check'' \<and>
   Command (AnalysisItem ''check'' ''echo ok'' False ''clear'' [] ''ok'' []) = ''echo ok''"
proof -
  have run: "fst (analyze env_clear ''check'' ''echo ok'' 0 0) =
     Returns (AnalysisItem ''check'' ''echo ok'' False ''clear'' [] ''ok'' [], None)"
    by (simp add: analyze_env_clear)
  from analyze_prompt_command_fields [OF run] run show ?thesis by simp
qed

subsection \<open>Terminal paths\<close>

text \<open>
  Claim C7. For every prompt and depth, \<^verbatim>\<open>analyze(prompt, "", depth)\<close> returns an
  item with \<^verbatim>\<open>flagged = false\<close>, empty \<^verbatim>\<open>raw_output\<close> and empty
  \<^verbatim>\<open>follow_ups\<close>; no command is executed and the oracle is not called (no event
  happens and the world is unchanged).
\<close>

theorem analyze_empty_command:
  "analyze env prompt [] depth w =
     (Returns (AnalysisItem prompt [] False ''No command provided'' [] [] [], None), w, [])"
  by (subst analyze.simps) simp

theorem analyze_empty_command_witness:
  "analyze env_flag ''p'' [] 0 0 =
     (Returns (AnalysisItem ''p'' [] False ''No command provided'' [] [] [], None), 0, []) \<and>
   Flagged (AnalysisItem ''p'' [] False ''No command provided'' [] [] []) = False \<and>
   RawOutput (AnalysisItem ''p'' [] False ''No command provided'' [] [] []) = [] \<and>
   FollowUps (AnalysisItem ''p'' [] False ''No command provided'' [] [] []) = []"
  using analyze_empty_command [of env_flag "''p''" 0 0] by simp

text \<open>
  Claim C6. If the execution of the command times out, \<^verbatim>\<open>analyze\<close> returns an item
  with \<^verbatim>\<open>flagged = false\<close> whose description is the timeout error text (after the
  prefix \<^verbatim>\<open>Command execution error: \<close> of the format string); the oracle is not
  invoked (the only events are the progress line and the execution, and the world is the
  one the shell left); and \<^verbatim>\<open>raw_output\<close> is empty whatever the shell had captured.
  The command is executed when it is not empty and \<^verbatim>\<open>indent(depth)\<close> does not
  panic; the statement is for the depths that \<^verbatim>\<open>main\<close> and the recursion produce,
  \<open>0 \<le> depth \<le> maxFollowups\<close>.
\<close>

theorem analyze_timeout:
  assumes "command \<noteq> []" and "0 \<le> depth" and "depth \<le> maxFollowups"
    and "sh env command w = (res, w1)" and "deadline_exceeded res"
  shows "analyze env prompt command depth w =
           (Returns (AnalysisItem prompt command False
                       ''Command execution error: command execution timed out'' [] [] [],
                     None),
            w1,
            [Printed (concat (replicate (nat depth) ''  '') @ ''Executing command: '' @
                      command @ ''\<newline>''),
             Executed command])"
  using assms
  by (subst analyze.simps) (simp add: indent_def maxInt_def maxFollowups_def executeCommand_def)

theorem analyze_timeout_witness:
  "''ls'' \<noteq> [] \<and> (0::int) \<le> 0 \<and> 0 \<le> maxFollowups \<and>
   sh env_timeout ''ls'' 7 =
     (\<lparr>combined_output = ''partial'', run_err = Some ''signal: killed'',
       deadline_exceeded = True\<rparr>, 7) \<and>
   analyze env_timeout ''p'' ''ls'' 0 7 =
     (Returns (AnalysisItem ''p'' ''ls'' False
                 ''Command execution error: command execution timed out'' [] [] [], None),
      7, [Printed ''Executing command: ls\<newline>'', Executed ''ls''])"
proof -
  have s: "sh env_timeout ''ls'' 7 =
     (\<lparr>combined_output = ''partial'', run_err = Some ''signal: killed'',
       deadline_exceeded = True\<rparr>, 7)"
    by (simp add: env_timeout_def)
  from analyze_timeout [OF _ _ _ s, of 0 "''p''"] s show ?thesis
    by (simp add: maxFollowups_def)
qed

subsection \<open>The last level of recursion\<close>

lemma executeCommand_events:
  "executeCommand env command w = (r, w', evs) \<Longrightarrow> evs = [Executed command]"
  by (auto simp: executeCommand_def split: prod.splits)

lemma callOpenAI_events:
  "callOpenAI env p w = (r, w', evs)
   \<Longrightarrow> evs = [Requested (chatRequest (detectOS (GOOS env)) p)]"
  by (auto simp: callOpenAI_def Let_def split: prod.splits)

lemma analyze_at_max_depth:
  assumes "command \<noteq> []"
    and "analyze env prompt command maxFollowups w = (out, w', evs)"
  shows "(\<forall>child err. out = Returns (child, err) \<longrightarrow> FollowUps child = []) \<and>
         (\<exists>rest. evs = [Printed (concat (replicate 5 ''  '') @ ''Executing command: '' @
                                    command @ ''\<newline>''),
                         Executed command] @ rest \<and>
                  (rest = [] \<or> (\<exists>p. rest = [Requested (chatRequest (detectOS (GOOS env)) p)])))"
  using assms
  apply (subst (asm) analyze.simps)
  apply (auto simp: Let_def indent_def maxInt_def maxFollowups_def truncateOutput_budget
      split: if_splits outcome.splits prod.splits option.splits
      dest!: executeCommand_events callOpenAI_events)
  done

text \<open>
  Claim C5. When \<^verbatim>\<open>analyze\<close> runs at depth \<open>maxFollowups - 1\<close> (4) and the oracle
  returns a flagged verdict with both follow-up fields non-empty, exactly one further
  call is made, at depth \<open>maxFollowups\<close>: the result and the effects of the run are
  those of the root's own steps followed by those of that one call, whose item becomes
  the only follow-up. That child does not recurse, whatever its own verdict: its item
  has no follow-ups and its effects are one progress line, one execution and at most one
  request to the oracle. In the witness the child's verdict is flagged with both
  follow-up fields populated.
\<close>

theorem analyze_last_level:
  assumes "command \<noteq> []"
    and "executeCommand env command w = ((out, None), wa, eva)"
    and "callOpenAI env
           (command @ ''\<newline>\<newline>Command output (truncated):\<newline>'' @ take 3000 out) wa =
         (Returns (resp, None), wb, evb)"
    and "Flagged_resp resp" and "FollowUpCommand resp \<noteq> []" and "FollowUpPrompt resp \<noteq> []"
    and "analyze env (FollowUpPrompt resp) (FollowUpCommand resp) maxFollowups wb =
         (child_out, wc, evc)"
  shows "analyze env prompt command (maxFollowups - 1) w =
           ((case child_out of
               Panics \<Rightarrow> Panics
             | Returns (child, err) \<Rightarrow>
                 Returns (AnalysisItem prompt command True (Description resp) (Alert_resp resp)
                            (take 3000 out) [child], None)),
            wc,
            [Printed (concat (replicate 4 ''  '') @ ''Executing command: '' @ command @
                      ''\<newline>'')] @ eva @ evb @
            [Printed (concat (replicate 5 ''  '') @ ''Executing follow-up command: '' @
                      FollowUpCommand resp @ ''\<newline>'')] @ evc) \<and>
         (\<forall>child err. child_out = Returns (child, err) \<longrightarrow> FollowUps child = []) \<and>
         (\<exists>rest. evc = [Printed (concat (replicate 5 ''  '') @ ''Executing command: '' @
                                    FollowUpCommand resp @ ''\<newline>''),
                         Executed (FollowUpCommand resp)] @ rest \<and>
                  (rest = [] \<or> (\<exists>p. rest = [Requested (chatRequest (detectOS (GOOS env)) p)])))"
proof -
  have err: "e = None" if "child_out = Returns (c, e)" for c e
    using analyze_step [of env "FollowUpPrompt resp" "FollowUpCommand resp" maxFollowups wb c e wc evc]
      assms(7) that by simp
  have root: "analyze env prompt command (maxFollowups - 1) w =
           ((case child_out of
               Panics \<Rightarrow> Panics
             | Returns (child, err) \<Rightarrow>
                 Returns (AnalysisItem prompt command True (Description resp) (Alert_resp resp)
                            (take 3000 out) [child], None)),
            wc,
            [Printed (concat (replicate 4 ''  '') @ ''Executing command: '' @ command @
                      ''\<newline>'')] @ eva @ evb @
            [Printed (concat (replicate 5 ''  '') @ ''Executing follow-up command: '' @
                      FollowUpCommand resp @ ''\<newline>'')] @ evc)"
  proof (cases child_out)
    case Panics
    with assms show ?thesis
      by (subst analyze.simps)
        (simp add: indent_def maxInt_def truncateOutput_budget maxFollowups_def)
  next
    case (Returns r)
    obtain c e where r: "r = (c, e)" by (cases r)
    with Returns err have "child_out = Returns (c, None)" by simp
    with assms show ?thesis
      by (subst analyze.simps)
        (simp add: indent_def maxInt_def truncateOutput_budget maxFollowups_def)
  qed
  from analyze_at_max_depth [OF assms(5) assms(7)] root show ?thesis by blast
qed

lemma analyze_env_flag_leaf:
  "analyze env_flag ''deeper'' ''echo f'' 5 w =
     (Returns (chain 0, None), Suc w,
      [Printed ''          Executing command: echo f\<newline>'', Executed ''echo f'',
       Requested (chatRequest ''macOS''
                   ''echo f\<newline>\<newline>Command output (truncated):\<newline>out'')])"
  by (subst analyze.simps)
    (simp add: indent_def maxInt_def executeCommand_env_flag truncateOutput_budget callOpenAI_env_flag
      flagged_resp_def maxFollowups_def numeral_eq_Suc)

theorem analyze_last_level_witness:
  "''ls'' \<noteq> [] \<and>
   executeCommand env_flag ''ls'' 0 = ((''out'', None), 0, [Executed ''ls'']) \<and>
   fst (callOpenAI env_flag
         (''ls'' @ ''\<newline>\<newline>Command output (truncated):\<newline>'' @ take 3000 ''out'') 0) =
     Returns (flagged_resp, None) \<and>
   Flagged_resp flagged_resp \<and> FollowUpCommand flagged_resp = ''echo f'' \<and>
   FollowUpPrompt flagged_resp = ''deeper'' \<and>
   fst (analyze env_flag ''deeper'' ''echo f'' maxFollowups 1) = Returns (chain 0, None) \<and>
   fst (analyze env_flag ''p'' ''ls'' (maxFollowups - 1) 0) =
     Returns (AnalysisItem ''p'' ''ls'' True ''susp'' ''alert'' ''out'' [chain 0], None) \<and>
   FollowUps (chain 0) = []"
proof -
  have f: "Flagged_resp flagged_resp" "FollowUpCommand flagged_resp = ''echo f''"
    "FollowUpPrompt flagged_resp = ''deeper''" by (simp_all add: flagged_resp_def)
  have c: "analyze env_flag (FollowUpPrompt flagged_resp) (FollowUpCommand flagged_resp)
             maxFollowups 1 =
           (Returns (chain 0, None), 2,
            [Printed ''          Executing command: echo f\<newline>'', Executed ''echo f'',
             Requested (chatRequest ''macOS''
                   ''echo f\<newline>\<newline>Command output (truncated):\<newline>out'')])"
    using analyze_env_flag_leaf [of 1] by (simp add: f maxFollowups_def)
  have "fst (analyze env_flag ''p'' ''ls'' (maxFollowups - 1) 0) =
     Returns (AnalysisItem ''p'' ''ls'' True ''susp'' ''alert'' ''out'' [chain 0], None)"
    using analyze_last_level [where env = env_flag and command = "''ls''" and prompt = "''p''"
        and w = 0 and out = "''out''" and wa = 0 and eva = "[Executed ''ls'']"
        and resp = flagged_resp and wb = 1 and child_out = "Returns (chain 0, None)"
        and wc = 2] c
    by (simp add: executeCommand_env_flag callOpenAI_env_flag flagged_resp_def)
  moreover have "fst (analyze env_flag ''deeper'' ''echo f'' maxFollowups 1) = Returns (chain 0, None)"
    using c by (simp add: f)
  ultimately show ?thesis
    by (simp add: executeCommand_env_flag callOpenAI_env_flag f)
qed

subsection \<open>The context prompt\<close>

text \<open>
  The prompt argument is stored in the item and used nowhere else: the world and the
  events of a run, and so every request to the oracle, are the same for any two prompts.
\<close>

lemma analyze_effects_independent_of_prompt:
  "snd (analyze env p1 command depth w) = snd (analyze env p2 command depth w)"
  apply (subst analyze.simps [of env p1])
  apply (subst analyze.simps [of env p2])
  apply (auto simp: Let_def split: outcome.splits prod.splits option.splits)
  done

text \<open>
  Claim C1. The claim is that, whenever \<^verbatim>\<open>analyze\<close> reaches the oracle call, the
  context prompt sent combines the original check prompt with the truncated command
  output. The code builds \<^verbatim>\<open>fullPrompt\<close> from the command text instead: for the check
  with prompt \<^verbatim>\<open>check\<close> and command \<^verbatim>\<open>echo ok\<close> whose output is \<^verbatim>\<open>ok\<close>, the
  one request sent carries the user message
  \<^verbatim>\<open>echo ok\n\nCommand output (truncated):\nok\<close>, in which the prompt does not occur.
\<close>

theorem analyze_context_prompt_from_command:
  "snd (snd (analyze env_clear ''check'' ''echo ok'' 0 0)) =
     [Printed ''Executing command: echo ok\<newline>'', Executed ''echo ok'',
      Requested (chatRequest ''macOS''
                  ''echo ok\<newline>\<newline>Command output (truncated):\<newline>ok'')] \<and>
   map Content (filter (\<lambda>m. Role m = ''user'')
     (Messages (chatRequest ''macOS''
                  ''echo ok\<newline>\<newline>Command output (truncated):\<newline>ok''))) =
     [''echo ok\<newline>\<newline>Command output (truncated):\<newline>ok'']"
  by (simp add: analyze_env_clear) (simp add: chatRequest_def)

subsection \<open>Absorbed failures and the run driver\<close>

text \<open>
  Failures of the command and of the oracle become items; \<^verbatim>\<open>analyze\<close> never returns
  a non-nil error (\<open>analyze_step\<close>). From a depth between 0 and \<open>maxFollowups\<close> a
  run panics only when the service answers without error and without choices, so that
  \<^verbatim>\<open>resp.Choices[0]\<close> is out of range; when the service never does that,
  \<^verbatim>\<open>analyze\<close> returns an item from every such depth and the run driver collects one
  item per check, in order.
\<close>

lemma analyze_absorbs_exec_error:
  assumes "command \<noteq> []" and "0 \<le> depth" and "depth \<le> maxFollowups"
    and "executeCommand env command w = ((out, Some e), wa, eva)"
  shows "fst (analyze env prompt command depth w) =
           Returns (AnalysisItem prompt command False (''Command execution error: '' @ e)
                      [] [] [], None)"
  using assms executeCommand_error_no_output [OF assms(4)]
  by (subst analyze.simps) (simp add: indent_def maxInt_def maxFollowups_def)

lemma analyze_absorbs_oracle_error:
  assumes "command \<noteq> []" and "0 \<le> depth" and "depth \<le> maxFollowups"
    and "executeCommand env command w = ((out, None), wa, eva)"
    and "callOpenAI env
           (command @ ''\<newline>\<newline>Command output (truncated):\<newline>'' @ take 3000 out) wa =
         (Returns (resp, Some e), wb, evb)"
  shows "fst (analyze env prompt command depth w) =
           Returns (AnalysisItem prompt command False (''OpenAI API error: '' @ e)
                      [] (take 3000 out) [], None)"
  using assms
  by (subst analyze.simps)
    (simp add: indent_def maxInt_def maxFollowups_def truncateOutput_budget)

lemma callOpenAI_panics:
  assumes "callOpenAI env p w = (Panics, w', evs)"
  shows "\<exists>req v. fst (CreateChatCompletion env req v) = ([], None)"
proof -
  obtain cs err v' where
    c: "CreateChatCompletion env (chatRequest (detectOS (GOOS env)) p) w = ((cs, err), v')"
    by (cases "CreateChatCompletion env (chatRequest (detectOS (GOOS env)) p) w") auto
  from assms c have "cs = [] \<and> err = None"
    by (auto simp: callOpenAI_def Let_def simp del: detectOS.simps
        split: option.splits list.splits sum.splits)
  with c have "fst (CreateChatCompletion env (chatRequest (detectOS (GOOS env)) p) w) = ([], None)"
    by simp
  then show ?thesis by blast
qed

lemma analyze_panic_step:
  assumes "analyze env prompt command depth w = (Panics, w', evs)"
  shows "depth < 0 \<or> maxFollowups < depth \<or>
         (\<exists>req v. fst (CreateChatCompletion env req v) = ([], None)) \<or>
         (\<exists>fp fc v evs2. depth < maxFollowups \<and>
            analyze env fp fc (depth + 1) v = (Panics, w', evs2))"
  using assms
  apply (subst (asm) analyze.simps)
  apply (auto simp: Let_def indent_def maxInt_def maxFollowups_def truncateOutput_budget
      split: if_splits outcome.splits prod.splits option.splits
      dest: callOpenAI_panics)
  done

lemma analyze_no_panic_if_choices:
  assumes choices: "\<forall>req v. fst (CreateChatCompletion env req v) \<noteq> ([], None)"
    and "0 \<le> depth" and "depth \<le> maxFollowups"
  shows "fst (analyze env prompt command depth w) \<noteq> Panics"
  using assms(2,3)
proof (induction "nat (maxFollowups - depth)" arbitrary: prompt command depth w)
  case 0
  show ?case
  proof
    assume "fst (analyze env prompt command depth w) = Panics"
    then obtain w' evs where "analyze env prompt command depth w = (Panics, w', evs)"
      by (cases "analyze env prompt command depth w") simp
    from analyze_panic_step [OF this] "0.hyps" "0.prems" choices show False by fastforce
  qed
next
  case (Suc k)
  show ?case
  proof
    assume "fst (analyze env prompt command depth w) = Panics"
    then obtain w' evs where "analyze env prompt command depth w = (Panics, w', evs)"
      by (cases "analyze env prompt command depth w") simp
    from analyze_panic_step [OF this] Suc.prems choices
    obtain fp fc v evs2 where lt: "depth < maxFollowups"
      and rec: "analyze env fp fc (depth + 1) v = (Panics, w', evs2)" by fastforce
    from Suc.hyps(2) lt have "k = nat (maxFollowups - (depth + 1))" by simp
    from Suc.hyps(1) [OF this, where prompt = fp and command = fc and w = v] Suc.prems lt rec
    show False by simp
  qed
qed

lemma analyze_returns_if_choices:
  assumes "\<forall>req v. fst (CreateChatCompletion env req v) \<noteq> ([], None)"
    and "0 \<le> depth" and "depth \<le> maxFollowups"
  shows "\<exists>item w' evs. analyze env prompt command depth w = (Returns (item, None), w', evs) \<and>
           Prompt item = prompt \<and> Command item = command"
proof -
  obtain r w' evs where run: "analyze env prompt command depth w = (r, w', evs)"
    by (cases "analyze env prompt command depth w") auto
  from analyze_no_panic_if_choices [OF assms, where prompt = prompt and command = command and w = w] run
  obtain item err where r: "r = Returns (item, err)" by (cases r) auto
  from analyze_step [OF run [unfolded r]] run r show ?thesis by auto
qed

lemma main_loop_complete_if_choices:
  assumes "\<forall>req v. fst (CreateChatCompletion env req v) \<noteq> ([], None)"
  shows "\<exists>items w' evs. main_loop env chks results w = (Returns (results @ items), w', evs) \<and>
           map Prompt items = map Prompt_chk chks \<and> map Command items = map Command_chk chks"
proof (induction chks arbitrary: results w)
  case Nil
  show ?case by simp
next
  case (Cons chk rest)
  have "(0::int) \<le> 0" and "0 \<le> maxFollowups" by (simp_all add: maxFollowups_def)
  from analyze_returns_if_choices [OF assms this, where prompt = "Prompt_chk chk"
      and command = "Command_chk chk" and w = w]
  obtain item w1 ev1 where
    a: "analyze env (Prompt_chk chk) (Command_chk chk) 0 w = (Returns (item, None), w1, ev1)"
    and f: "Prompt item = Prompt_chk chk" "Command item = Command_chk chk" by auto
  from Cons.IH [of "results @ [item]" w1] obtain items w' evs where
    r: "main_loop env rest (results @ [item]) w1 = (Returns ((results @ [item]) @ items), w', evs)"
    and m: "map Prompt items = map Prompt_chk rest" "map Command items = map Command_chk rest"
    by blast
  have "main_loop env (chk # rest) results w = (Returns (results @ (item # items)), w', ev1 @ evs)"
    by (simp add: a r)
  with f m show ?case by (intro exI [of _ "item # items"]) auto
qed

lemma analyze_env_no_choices:
  "c \<noteq> [] \<Longrightarrow> 0 \<le> d \<Longrightarrow> d \<le> maxFollowups \<Longrightarrow>
   analyze env_no_choices p c d w =
     (Panics, Suc w,
      [Printed (concat (replicate (nat d) ''  '') @ ''Executing command: '' @ c @ ''\<newline>''),
       Executed c,
       Requested (chatRequest ''macOS''
                   (c @ ''\<newline>\<newline>Command output (truncated):\<newline>ok''))])"
  by (subst analyze.simps)
    (simp add: indent_def maxInt_def maxFollowups_def executeCommand_def truncateOutput_budget
      callOpenAI_def env_no_choices_def sh_ok_def)

text \<open>
  Claim C3. The claim is that \<^verbatim>\<open>analyze\<close> returns an item for every input, every
  failure being absorbed into an item with \<^verbatim>\<open>flagged = false\<close>, so that the report
  holds one root item per catalog check. When the service answers a request with no error
  and an empty list of choices, \<^verbatim>\<open>callOpenAI\<close> indexes \<^verbatim>\<open>resp.Choices[0]\<close> and
  panics: \<^verbatim>\<open>analyze\<close> returns no item and the run driver produces no report.
\<close>

theorem analyze_panics_on_empty_choices:
  "fst (CreateChatCompletion env_no_choices
          (chatRequest ''macOS'' ''echo ok\<newline>\<newline>Command output (truncated):\<newline>ok'') 0) =
     ([], None) \<and>
   fst (analyze env_no_choices ''check'' ''echo ok'' 0 0) = Panics \<and>
   fst (main_report env_no_choices 0) = Panics"
proof -
  have 1: "fst (CreateChatCompletion env_no_choices
          (chatRequest ''macOS'' ''echo ok\<newline>\<newline>Command output (truncated):\<newline>ok'') 0) =
     ([], None)" by (simp add: env_no_choices_def)
  have 2: "fst (analyze env_no_choices ''check'' ''echo ok'' 0 0) = Panics"
    by (simp add: analyze_env_no_choices maxFollowups_def)
  have 3: "fst (main_report env_no_choices 0) = Panics"
    by (simp add: main_report_def checks_MacOS_def analyze_env_no_choices maxFollowups_def)
  from 1 2 3 show ?thesis by (intro conjI)
qed

end
